theory Spec2Isabelle
  imports Complex_Main "HOL-Library.Multiset"
begin

section \<open>Floating-point values and Python errors\<close>

text \<open>
  \<^verbatim>\<open>minard_vis.py\<close> computes with IEEE doubles, both as Python \<^verbatim>\<open>float\<close>s and as
  numpy/pandas \<^verbatim>\<open>float64\<close> scalars and arrays. A double is modelled as a real number, one
  of the two infinities, or NaN. Rounding and signed zeros are not modelled: a finite
  result is the exact real result.
\<close>

datatype fl = Fin real | PInf | NInf | NaN

datatype pyerror =
  ValueError string | KeyError string | ZeroDivisionError | OverflowError | TypeError

fun fl_uminus :: "fl \<Rightarrow> fl" where
  "fl_uminus (Fin a) = Fin (- a)"
| "fl_uminus PInf = NInf"
| "fl_uminus NInf = PInf"
| "fl_uminus NaN = NaN"

fun fl_add :: "fl \<Rightarrow> fl \<Rightarrow> fl" where
  "fl_add (Fin a) (Fin b) = Fin (a + b)"
| "fl_add NaN y = NaN"
| "fl_add x NaN = NaN"
| "fl_add PInf NInf = NaN"
| "fl_add NInf PInf = NaN"
| "fl_add PInf y = PInf"
| "fl_add x PInf = PInf"
| "fl_add NInf y = NInf"
| "fl_add x NInf = NInf"

definition fl_sub :: "fl \<Rightarrow> fl \<Rightarrow> fl" where
  "fl_sub x y = fl_add x (fl_uminus y)"

fun fl_mul :: "fl \<Rightarrow> fl \<Rightarrow> fl" where
  "fl_mul (Fin a) (Fin b) = Fin (a * b)"
| "fl_mul NaN y = NaN"
| "fl_mul x NaN = NaN"
| "fl_mul (Fin a) y = (if a = 0 then NaN else if (0 < a) = (y = PInf) then PInf else NInf)"
| "fl_mul x (Fin b) = (if b = 0 then NaN else if (0 < b) = (x = PInf) then PInf else NInf)"
| "fl_mul PInf PInf = PInf"
| "fl_mul NInf NInf = PInf"
| "fl_mul PInf NInf = NInf"
| "fl_mul NInf PInf = NInf"

text \<open>
  Division of numpy scalars and arrays (\<^verbatim>\<open>Series / float\<close>): a zero divisor gives NaN or
  an infinity, never an exception.
\<close>

fun np_div :: "fl \<Rightarrow> fl \<Rightarrow> fl" where
  "np_div (Fin a) (Fin b) =
     (if b = 0 then (if a = 0 then NaN else if 0 < a then PInf else NInf) else Fin (a / b))"
| "np_div NaN y = NaN"
| "np_div x NaN = NaN"
| "np_div (Fin a) y = Fin 0"
| "np_div x (Fin b) = (if 0 \<le> b then x else fl_uminus x)"
| "np_div PInf PInf = NaN"
| "np_div NInf NInf = NaN"
| "np_div PInf NInf = NaN"
| "np_div NInf PInf = NaN"

text \<open>
  Division of two Python \<^verbatim>\<open>float\<close>s: a zero divisor raises \<^verbatim>\<open>ZeroDivisionError\<close>, whatever
  the dividend.
\<close>

definition py_div :: "fl \<Rightarrow> fl \<Rightarrow> pyerror + fl" where
  "py_div x y = (if y = Fin 0 then Inl ZeroDivisionError else Inr (np_div x y))"

text \<open>\<^verbatim>\<open>np.sqrt\<close>: NaN for a negative argument.\<close>

fun np_sqrt :: "fl \<Rightarrow> fl" where
  "np_sqrt (Fin a) = (if a < 0 then NaN else Fin (sqrt a))"
| "np_sqrt PInf = PInf"
| "np_sqrt NInf = NaN"
| "np_sqrt NaN = NaN"

text \<open>The order of doubles: every comparison with NaN is false.\<close>

fun fl_le :: "fl \<Rightarrow> fl \<Rightarrow> bool" where
  "fl_le NaN y = False"
| "fl_le x NaN = False"
| "fl_le NInf y = True"
| "fl_le x PInf = True"
| "fl_le (Fin a) (Fin b) = (a \<le> b)"
| "fl_le PInf y = False"
| "fl_le x NInf = False"

text \<open>
  \<^verbatim>\<open>Series.min()\<close> and \<^verbatim>\<open>Series.max()\<close> skip NaN; on a series with no other value the
  result is NaN.
\<close>

fun np_fmin :: "fl \<Rightarrow> fl \<Rightarrow> fl" where
  "np_fmin NaN y = y"
| "np_fmin x NaN = x"
| "np_fmin x y = (if fl_le x y then x else y)"

fun np_fmax :: "fl \<Rightarrow> fl \<Rightarrow> fl" where
  "np_fmax NaN y = y"
| "np_fmax x NaN = x"
| "np_fmax x y = (if fl_le x y then y else x)"

definition col_min :: "fl list \<Rightarrow> fl" where
  "col_min xs = fold np_fmin xs NaN"

definition col_max :: "fl list \<Rightarrow> fl" where
  "col_max xs = fold np_fmax xs NaN"

section \<open>Linewidth of a route segment\<close>

text \<open>
  Line 95 (and 112): \<^verbatim>\<open>surv = float((p1["survivors"] + p2["survivors"]) / 2.0)\<close>.
\<close>

definition surv_avg :: "fl \<Rightarrow> fl \<Rightarrow> fl" where
  "surv_avg s1 s2 = np_div (fl_add s1 s2) (Fin 2)"

text \<open>
  Line 98 (and 113): \<^verbatim>\<open>lw = 0.5 + 11.5 * np.sqrt(surv / max_surv)\<close>. Both \<^verbatim>\<open>surv\<close> and
  \<^verbatim>\<open>max_surv\<close> are Python floats (each is the result of \<^verbatim>\<open>float(...)\<close>), so the quotient
  is Python's division.
\<close>

definition linewidth :: "fl \<Rightarrow> fl \<Rightarrow> pyerror + fl" where
  "linewidth max_surv surv =
     (case py_div surv max_surv of
        Inl e \<Rightarrow> Inl e
      | Inr q \<Rightarrow> Inr (fl_add (Fin 0.5) (fl_mul (Fin 11.5) (np_sqrt q))))"

definition segment_linewidth :: "fl \<Rightarrow> fl \<Rightarrow> fl \<Rightarrow> pyerror + fl" where
  "segment_linewidth max_surv s1 s2 = linewidth max_surv (surv_avg s1 s2)"

section \<open>Temperature placement\<close>

text \<open>
  Line 131, on the whole series at once (pandas arithmetic, so numpy's division):
  \<^verbatim>\<open>y_temp = y_base + (temp["temp"] - temp_min) / (temp_max - temp_min) * y_span\<close>.
  The function gives the entry of \<^verbatim>\<open>y_temp\<close> for the entry \<open>t\<close> of the series.
\<close>

definition y_curve :: "fl \<Rightarrow> fl \<Rightarrow> fl \<Rightarrow> fl \<Rightarrow> fl \<Rightarrow> fl" where
  "y_curve temp_min temp_max y_base y_span t =
     fl_add y_base (fl_mul (np_div (fl_sub t temp_min) (fl_sub temp_max temp_min)) y_span)"

text \<open>
  Line 139, once per row, on Python floats:
  \<^verbatim>\<open>yt = y_base + (float(row["temp"]) - temp_min) / (temp_max - temp_min) * y_span\<close>.
\<close>

definition y_label :: "fl \<Rightarrow> fl \<Rightarrow> fl \<Rightarrow> fl \<Rightarrow> fl \<Rightarrow> pyerror + fl" where
  "y_label temp_min temp_max y_base y_span t =
     (case py_div (fl_sub t temp_min) (fl_sub temp_max temp_min) of
        Inl e \<Rightarrow> Inl e
      | Inr q \<Rightarrow> Inr (fl_add y_base (fl_mul q y_span)))"

text \<open>
  The inverse map as the specification words it (the program has none):
  \<open>(y - y_base) / y_span * (temp_max - temp_min) + temp_min\<close>.
\<close>

definition y_to_temp_spec :: "real \<Rightarrow> real \<Rightarrow> real \<Rightarrow> real \<Rightarrow> real \<Rightarrow> real" where
  "y_to_temp_spec temp_min temp_max y_base y_span y =
     (y - y_base) / y_span * (temp_max - temp_min) + temp_min"


section \<open>Data frames\<close>

text \<open>
  A pandas column read by \<^verbatim>\<open>pd.read_csv\<close> either has dtype \<^verbatim>\<open>float64\<close> (every field
  parsed as a number, an empty field being NaN; \<^verbatim>\<open>int64\<close> columns are doubles in this
  idealisation) or dtype \<^verbatim>\<open>object\<close>: the fields as \<^verbatim>\<open>str\<close>, an empty field being the
  missing value. A frame maps its column labels to columns, all of the same length
  \<open>nrows\<close>. Labels are unique, as in every frame \<^verbatim>\<open>read_csv\<close> returns (it renames a
  repeated header). Rows are addressed by position, which is what \<^verbatim>\<open>iloc\<close> and
  \<^verbatim>\<open>reset_index(drop=True)\<close> amount to.
\<close>

datatype obj = Str string | NA

datatype column = Numeric "fl list" | Object "obj list"

datatype cell = Num fl | Obj obj

record dataframe =
  nrows :: nat
  cols :: "string \<rightharpoonup> column"

fun col_len :: "column \<Rightarrow> nat" where
  "col_len (Numeric xs) = length xs"
| "col_len (Object os) = length os"

fun col_at :: "column \<Rightarrow> nat \<Rightarrow> cell" where
  "col_at (Numeric xs) i = Num (xs ! i)"
| "col_at (Object os) i = Obj (os ! i)"

fun col_take :: "nat list \<Rightarrow> column \<Rightarrow> column" where
  "col_take idx (Numeric xs) = Numeric (map (\<lambda>i. xs ! i) idx)"
| "col_take idx (Object os) = Object (map (\<lambda>i. os ! i) idx)"

text \<open>The frame made of the rows at the positions \<open>idx\<close>, in that order.\<close>

definition take_rows :: "nat list \<Rightarrow> dataframe \<Rightarrow> dataframe" where
  "take_rows idx df = \<lparr>nrows = length idx, cols = map_option (col_take idx) \<circ> cols df\<rparr>"

text \<open>\<^verbatim>\<open>df.iloc[i]\<close>: the row at position \<open>i\<close>, a map from column labels to values.\<close>

definition iloc :: "dataframe \<Rightarrow> nat \<Rightarrow> (string \<rightharpoonup> cell)" where
  "iloc df i = (\<lambda>c. map_option (\<lambda>col. col_at col i) (cols df c))"


text \<open>\<^verbatim>\<open>set(cs).issubset(df.columns)\<close>, and \<^verbatim>\<open>c in df.columns\<close> for a single label.\<close>

definition has_cols :: "dataframe \<Rightarrow> string list \<Rightarrow> bool" where
  "has_cols df cs = list_all (\<lambda>c. cols df c \<noteq> None) cs"

subsection \<open>Loader and normalizer\<close>

text \<open>
  \<^verbatim>\<open>load_csv\<close> (lines 21 to 26), applied to the frame that \<^verbatim>\<open>pd.read_csv(path)\<close> returned:
  the column \<^verbatim>\<open>Unnamed: 0\<close> is dropped if it exists.
\<close>

definition load_csv :: "dataframe \<Rightarrow> dataframe" where
  "load_csv df =
     (if cols df ''Unnamed: 0'' \<noteq> None then df\<lparr>cols := (cols df)(''Unnamed: 0'' := None)\<rparr>
      else df)"

text \<open>
  \<^verbatim>\<open>pd.to_numeric(series, errors="coerce")\<close>. A numeric column is returned as it is. In an
  object column a missing value stays missing, and a string becomes the number that
  pandas' parser reads in it, or NaN when the parser rejects it. The parser belongs to
  pandas, not to this program, and is a parameter: \<open>parse s = None\<close> when \<open>s\<close> is not a
  number.
\<close>

fun coerce :: "(string \<Rightarrow> fl option) \<Rightarrow> obj \<Rightarrow> fl" where
  "coerce parse NA = NaN"
| "coerce parse (Str s) = (case parse s of None \<Rightarrow> NaN | Some x \<Rightarrow> x)"

fun pd_to_numeric :: "(string \<Rightarrow> fl option) \<Rightarrow> column \<Rightarrow> column" where
  "pd_to_numeric parse (Numeric xs) = Numeric xs"
| "pd_to_numeric parse (Object os) = Numeric (map (coerce parse) os)"

text \<open>
  \<^verbatim>\<open>to_numeric\<close> (lines 29 to 33): for each label of the list that is a column of the
  frame, the column is replaced by its conversion. The frame is updated in place and
  returned: the model returns the updated frame.
\<close>

fun to_numeric :: "(string \<Rightarrow> fl option) \<Rightarrow> dataframe \<Rightarrow> string list \<Rightarrow> dataframe" where
  "to_numeric parse df [] = df"
| "to_numeric parse df (c # cs) =
     (case cols df c of
        None \<Rightarrow> to_numeric parse df cs
      | Some col \<Rightarrow> to_numeric parse (df\<lparr>cols := (cols df)(c \<mapsto> pd_to_numeric parse col)\<rparr>) cs)"

text \<open>The value a cell holds after conversion.\<close>

fun to_numeric_cell :: "(string \<Rightarrow> fl option) \<Rightarrow> cell \<Rightarrow> fl" where
  "to_numeric_cell parse (Num x) = x"
| "to_numeric_cell parse (Obj v) = coerce parse v"

section \<open>Sorting and grouping\<close>

text \<open>
  On several keys \<^verbatim>\<open>sort_values\<close> sorts with a stable sort (pandas' lexsort): rows with
  equal keys keep their order. That sort is insertion sort by a comparison.
\<close>

fun insert_by :: "('a \<Rightarrow> 'a \<Rightarrow> bool) \<Rightarrow> 'a \<Rightarrow> 'a list \<Rightarrow> 'a list" where
  "insert_by le x [] = [x]"
| "insert_by le x (y # ys) = (if le x y then x # y # ys else y # insert_by le x ys)"

definition sort_by :: "('a \<Rightarrow> 'a \<Rightarrow> bool) \<Rightarrow> 'a list \<Rightarrow> 'a list" where
  "sort_by le xs = foldr (insert_by le) xs []"

text \<open>
  On a single key \<^verbatim>\<open>sort_values\<close> sorts with numpy's \<^verbatim>\<open>argsort\<close>, by default a quicksort:
  the rows end in ascending order of the key, and nothing is promised about the order
  of rows with equal keys. The algorithm belongs to numpy, not to this program, and is a
  parameter of the model: it receives the comparison and the row positions and returns
  the positions in their new order. \<open>sorts\<close> is what numpy documents of it: its
  result is a rearrangement of its input, in ascending order whenever the comparison is
  a total preorder.
\<close>

type_synonym argsort = "(nat \<Rightarrow> nat \<Rightarrow> bool) \<Rightarrow> nat list \<Rightarrow> nat list"


text \<open>Python's order of \<^verbatim>\<open>str\<close>: lexicographic by character code.\<close>

fun str_lt :: "string \<Rightarrow> string \<Rightarrow> bool" where
  "str_lt [] [] = False"
| "str_lt [] (d # ds) = True"
| "str_lt (c # cs) [] = False"
| "str_lt (c # cs) (d # ds) = ((of_char c :: nat) < of_char d \<or> (c = d \<and> str_lt cs ds))"

text \<open>
  The order \<^verbatim>\<open>sort_values\<close> uses inside one column: missing values come last
  (\<^verbatim>\<open>na_position="last"\<close>).
\<close>

definition fl_lt_last :: "fl \<Rightarrow> fl \<Rightarrow> bool" where
  "fl_lt_last x y = (x \<noteq> NaN \<and> (y = NaN \<or> (fl_le x y \<and> x \<noteq> y)))"

fun obj_lt_last :: "obj \<Rightarrow> obj \<Rightarrow> bool" where
  "obj_lt_last (Str a) (Str b) = str_lt a b"
| "obj_lt_last (Str a) NA = True"
| "obj_lt_last NA v = False"

fun col_lt :: "column \<Rightarrow> nat \<Rightarrow> nat \<Rightarrow> bool" where
  "col_lt (Numeric xs) i j = fl_lt_last (xs ! i) (xs ! j)"
| "col_lt (Object os) i j = obj_lt_last (os ! i) (os ! j)"

text \<open>Rows \<open>i\<close> and \<open>j\<close> compared on a list of key columns, the first key first.\<close>

fun rows_le :: "column list \<Rightarrow> nat \<Rightarrow> nat \<Rightarrow> bool" where
  "rows_le [] i j = True"
| "rows_le (k # ks) i j = (col_lt k i j \<or> (\<not> col_lt k j i \<and> rows_le ks i j))"

definition bind_err :: "pyerror + 'a \<Rightarrow> ('a \<Rightarrow> pyerror + 'b) \<Rightarrow> pyerror + 'b" where
  "bind_err m f = (case m of Inl e \<Rightarrow> Inl e | Inr x \<Rightarrow> f x)"

fun key_cols :: "dataframe \<Rightarrow> string list \<Rightarrow> pyerror + column list" where
  "key_cols df [] = Inr []"
| "key_cols df (c # cs) =
     (case cols df c of
        None \<Rightarrow> Inl (KeyError c)
      | Some k \<Rightarrow> bind_err (key_cols df cs) (\<lambda>ks. Inr (k # ks)))"

text \<open>
  \<^verbatim>\<open>df.sort_values(by).reset_index(drop=True)\<close>, and \<^verbatim>\<open>gdf.sort_values("X")\<close> whose rows
  are then read by position.
\<close>

definition sort_values :: "argsort \<Rightarrow> dataframe \<Rightarrow> string list \<Rightarrow> pyerror + dataframe" where
  "sort_values argsort df by =
     bind_err (key_cols df by)
       (\<lambda>ks. Inr (take_rows
                   ((if length by = 1 then argsort else sort_by) (rows_le ks) [0..<nrows df])
                   df))"

fun isna :: "cell \<Rightarrow> bool" where
  "isna (Num x) = (x = NaN)"
| "isna (Obj v) = (v = NA)"

fun nub_by :: "('a \<Rightarrow> 'a \<Rightarrow> bool) \<Rightarrow> 'a list \<Rightarrow> 'a list" where
  "nub_by eq [] = []"
| "nub_by eq (x # xs) = x # nub_by eq (filter (\<lambda>y. \<not> eq x y) xs)"

text \<open>
  \<^verbatim>\<open>df.groupby([a, b])\<close>, iterated: one pair of key and sub-frame for each pair of values
  of the columns \<open>a\<close> and \<open>b\<close>, in ascending order of the keys. Rows in which a key
  is missing belong to no group (\<^verbatim>\<open>dropna=True\<close>), and the rows of a group keep the order
  they have in the frame.
\<close>

definition groupby2 ::
  "dataframe \<Rightarrow> string \<Rightarrow> string \<Rightarrow> pyerror + (cell \<times> cell \<times> dataframe) list" where
  "groupby2 df a b =
     (case cols df a of
        None \<Rightarrow> Inl (KeyError a)
      | Some ka \<Rightarrow>
         (case cols df b of
            None \<Rightarrow> Inl (KeyError b)
          | Some kb \<Rightarrow>
              (let idx = filter (\<lambda>i. \<not> isna (col_at ka i) \<and> \<not> isna (col_at kb i)) [0..<nrows df];
                   same = (\<lambda>i j. col_at ka i = col_at ka j \<and> col_at kb i = col_at kb j);
                   firsts = nub_by same (sort_by (rows_le [ka, kb]) idx)
               in Inr (map (\<lambda>r. (col_at ka r, col_at kb r, take_rows (filter (same r) idx) df))
                         firsts))))"

section \<open>The chart\<close>

text \<open>
  What is drawn is a list of the calls made on the axes, in order. The figure is created
  at line 78, after the checks; a run that fails returns the list up to the failure and
  the error.
\<close>

datatype linestyle = Solid | Dashed

datatype draw =
    LegendLine linestyle
  | Segment fl fl fl fl fl linestyle
  | Scatter "fl list" "fl list"
  | CityText fl fl cell
  | TempCurve "fl list" "fl list"
  | TempText fl fl int "cell option"
  | Limits fl fl fl fl
  | SaveFig

type_synonym outcome = "draw list \<times> pyerror option"

definition then_do :: "outcome \<Rightarrow> (draw list \<Rightarrow> outcome) \<Rightarrow> outcome" where
  "then_do r f = (case r of (drawn, None) \<Rightarrow> f drawn | (drawn, Some e) \<Rightarrow> (drawn, Some e))"

text \<open>A \<^verbatim>\<open>for\<close> loop whose body makes one drawing call, or raises.\<close>

fun for_each :: "('a \<Rightarrow> pyerror + draw) \<Rightarrow> 'a list \<Rightarrow> draw list \<Rightarrow> outcome" where
  "for_each body [] drawn = (drawn, None)"
| "for_each body (x # xs) drawn =
     (case body x of
        Inl e \<Rightarrow> (drawn, Some e)
      | Inr d \<Rightarrow> for_each body xs (drawn @ [d]))"

text \<open>
  A numeric field of a row, and a numeric column of a frame. Wherever the program
  reads one, \<open>to_numeric\<close> has made the column numeric and the checks have found it, so
  only the numeric branch is taken; the others stand for the \<^verbatim>\<open>KeyError\<close> of a missing
  label and for arithmetic on a \<^verbatim>\<open>str\<close>.
\<close>

definition num_field :: "(string \<rightharpoonup> cell) \<Rightarrow> string \<Rightarrow> pyerror + fl" where
  "num_field row c =
     (case row c of
        None \<Rightarrow> Inl (KeyError c)
      | Some (Num x) \<Rightarrow> Inr x
      | Some (Obj NA) \<Rightarrow> Inr NaN
      | Some (Obj (Str s)) \<Rightarrow> Inl TypeError)"

definition num_series :: "dataframe \<Rightarrow> string \<Rightarrow> pyerror + fl list" where
  "num_series df c =
     (case cols df c of
        None \<Rightarrow> Inl (KeyError c)
      | Some (Numeric xs) \<Rightarrow> Inr xs
      | Some (Object os) \<Rightarrow> Inl TypeError)"

subsection \<open>Troop route\<close>

text \<open>\<^verbatim>\<open>str.upper\<close>, on ASCII letters; other characters are left as they are.\<close>

definition upper_char :: "char \<Rightarrow> char" where
  "upper_char c =
     (case map_of (zip ''abcdefghijklmnopqrstuvwxyz'' ''ABCDEFGHIJKLMNOPQRSTUVWXYZ'') c of
        None \<Rightarrow> c
      | Some u \<Rightarrow> u)"

definition py_upper :: "string \<Rightarrow> string" where
  "py_upper s = map upper_char s"

definition startswith :: "string \<Rightarrow> string \<Rightarrow> bool" where
  "startswith s p = (take (length p) s = p)"

text \<open>
  Line 101: \<^verbatim>\<open>ls = "-" if str(direction).upper().startswith("A") else "--"\<close>, where
  \<^verbatim>\<open>direction\<close> is the second component of the group key. The \<^verbatim>\<open>str\<close> of a number
  starts with a digit, a sign, or is \<^verbatim>\<open>inf\<close> or \<^verbatim>\<open>nan\<close>: it never starts with an A.
\<close>

fun linestyle_of :: "cell \<Rightarrow> linestyle" where
  "linestyle_of (Obj (Str s)) = (if startswith (py_upper s) ''A'' then Solid else Dashed)"
| "linestyle_of (Obj NA) = Dashed"
| "linestyle_of (Num x) = Dashed"

text \<open>
  The body of the loops at lines 92 to 106 and 109 to 116: the segment between the rows
  at positions \<open>i\<close> and \<open>i + 1\<close> of the frame.
\<close>

definition segment :: "fl \<Rightarrow> linestyle \<Rightarrow> dataframe \<Rightarrow> nat \<Rightarrow> pyerror + draw" where
  "segment max_surv ls gdf i =
     (let p1 = iloc gdf i; p2 = iloc gdf (i + 1) in
      bind_err (num_field p1 ''survivors'') (\<lambda>s1.
      bind_err (num_field p2 ''survivors'') (\<lambda>s2.
      bind_err (segment_linewidth max_surv s1 s2) (\<lambda>lw.
      bind_err (num_field p1 ''long'') (\<lambda>x1.
      bind_err (num_field p2 ''long'') (\<lambda>x2.
      bind_err (num_field p1 ''lat'') (\<lambda>y1.
      bind_err (num_field p2 ''lat'') (\<lambda>y2.
      Inr (Segment x1 x2 y1 y2 lw ls)))))))))"

text \<open>\<^verbatim>\<open>df.sort_values("X") if "X" in df.columns else df\<close> (lines 57 to 60, 91 and 108).\<close>

definition sort_if_X :: "argsort \<Rightarrow> dataframe \<Rightarrow> pyerror + dataframe" where
  "sort_if_X argsort df =
     (if has_cols df [''X''] then sort_values argsort df [''X''] else Inr df)"

text \<open>The loop over the groups, lines 90 to 106.\<close>

fun draw_groups ::
  "argsort \<Rightarrow> fl \<Rightarrow> (cell \<times> cell \<times> dataframe) list \<Rightarrow> draw list \<Rightarrow> outcome" where
  "draw_groups argsort max_surv [] drawn = (drawn, None)"
| "draw_groups argsort max_surv ((g, direction, gdf) # rest) drawn =
     (case sort_if_X argsort gdf of
        Inl e \<Rightarrow> (drawn, Some e)
      | Inr gdf \<Rightarrow>
          then_do (for_each (segment max_surv (linestyle_of direction) gdf) [0..<nrows gdf - 1] drawn)
            (draw_groups argsort max_surv rest))"

text \<open>Lines 88 to 116.\<close>

definition draw_route :: "argsort \<Rightarrow> fl \<Rightarrow> dataframe \<Rightarrow> draw list \<Rightarrow> outcome" where
  "draw_route argsort max_surv troops drawn =
     (if has_cols troops [''group'', ''direction''] then
        (case groupby2 troops ''group'' ''direction'' of
           Inl e \<Rightarrow> (drawn, Some e)
         | Inr troop_groups \<Rightarrow> draw_groups argsort max_surv troop_groups drawn)
      else
        (case sort_if_X argsort troops of
           Inl e \<Rightarrow> (drawn, Some e)
         | Inr troops_sorted \<Rightarrow>
             for_each (segment max_surv Solid troops_sorted) [0..<nrows troops_sorted - 1] drawn))"

subsection \<open>Cities and temperature\<close>

text \<open>Lines 120 to 122.\<close>

definition city_text :: "dataframe \<Rightarrow> nat \<Rightarrow> pyerror + draw" where
  "city_text cities i =
     (let row = iloc cities i in
      bind_err (num_field row ''long'') (\<lambda>x.
      bind_err (num_field row ''lat'') (\<lambda>y.
      (case row ''city'' of
         None \<Rightarrow> Inl (KeyError ''city'')
       | Some name \<Rightarrow> Inr (CityText (fl_add x (Fin 0.08)) (fl_add y (Fin 0.05)) name)))))"

definition draw_cities :: "dataframe \<Rightarrow> draw list \<Rightarrow> outcome" where
  "draw_cities cities drawn =
     (case bind_err (num_series cities ''long'') (\<lambda>xs.
           bind_err (num_series cities ''lat'') (\<lambda>ys. Inr (Scatter xs ys))) of
        Inl e \<Rightarrow> (drawn, Some e)
      | Inr d \<Rightarrow> for_each (city_text cities) [0..<nrows cities] (drawn @ [d]))"

text \<open>\<^verbatim>\<open>int(x)\<close> of a float: truncation towards zero.\<close>

fun py_int :: "fl \<Rightarrow> pyerror + int" where
  "py_int (Fin r) = Inr (if 0 \<le> r then \<lfloor>r\<rfloor> else \<lceil>r\<rceil>)"
| "py_int NaN = Inl (ValueError ''cannot convert float NaN to integer'')"
| "py_int PInf = Inl OverflowError"
| "py_int NInf = Inl OverflowError"

text \<open>
  Lines 138 to 142. The label is kept as its parts: the integer degree and the value
  of the \<^verbatim>\<open>date\<close> column, if the frame has one.
\<close>

definition temp_text :: "dataframe \<Rightarrow> fl \<Rightarrow> fl \<Rightarrow> fl \<Rightarrow> fl \<Rightarrow> nat \<Rightarrow> pyerror + draw" where
  "temp_text temp temp_min temp_max y_base y_span i =
     (let row = iloc temp i in
      bind_err (num_field row ''temp'') (\<lambda>t.
      bind_err (y_label temp_min temp_max y_base y_span t) (\<lambda>yt.
      bind_err (num_field row ''long'') (\<lambda>x.
      bind_err (py_int t) (\<lambda>n.
      Inr (TempText x (fl_sub yt (Fin 0.10)) n (row ''date'')))))))"

text \<open>Lines 125 to 142; \<^verbatim>\<open>y_base\<close> is computed by the caller, who needs it again.\<close>

definition draw_temperature :: "fl \<Rightarrow> dataframe \<Rightarrow> draw list \<Rightarrow> outcome" where
  "draw_temperature y_base temp drawn =
     (case num_series temp ''temp'' of
        Inl e \<Rightarrow> (drawn, Some e)
      | Inr ts \<Rightarrow>
         (let temp_min = col_min ts; temp_max = col_max ts; y_span = Fin 1.4 in
          case num_series temp ''long'' of
            Inl e \<Rightarrow> (drawn, Some e)
          | Inr xs \<Rightarrow>
              for_each (temp_text temp temp_min temp_max y_base y_span) [0..<nrows temp]
                (drawn @ [TempCurve xs (map (y_curve temp_min temp_max y_base y_span) ts)])))"

text \<open>
  Lines 145 to 159. The title, the axis labels, the legend and the grid take nothing
  from the data and are left out; the axis limits and the saving of the figure remain.
\<close>

definition finish :: "dataframe \<Rightarrow> fl \<Rightarrow> fl \<Rightarrow> draw list \<Rightarrow> outcome" where
  "finish troops y_base max_lat drawn =
     (case num_series troops ''long'' of
        Inl e \<Rightarrow> (drawn, Some e)
      | Inr xs \<Rightarrow>
          (drawn @ [Limits (fl_sub (col_min xs) (Fin 0.5)) (fl_add (col_max xs) (Fin 0.5))
                         (fl_sub y_base (Fin 0.5)) (fl_add max_lat (Fin 0.8)),
                  SaveFig], None))"

subsection \<open>The program\<close>

text \<open>Lines 52 to 55.\<close>

definition sort_troops :: "argsort \<Rightarrow> dataframe \<Rightarrow> pyerror + dataframe" where
  "sort_troops argsort troops =
     (if has_cols troops [''group'', ''direction'', ''X'']
      then sort_values argsort troops [''group'', ''direction'', ''X'']
      else if has_cols troops [''X''] then sort_values argsort troops [''X'']
      else Inr troops)"

text \<open>Lines 63 to 72: the messages are those of the f-strings.\<close>

definition check_columns :: "dataframe \<Rightarrow> dataframe \<Rightarrow> dataframe \<Rightarrow> pyerror + unit" where
  "check_columns troops temp cities =
     (if \<not> has_cols troops [''long'', ''lat'', ''survivors''] then
        Inl (ValueError ''Troops CSV must include columns: ['lat', 'long', 'survivors']'')
      else if \<not> has_cols temp [''long'', ''temp''] then
        Inl (ValueError ''Temp CSV must include columns: ['long', 'temp']'')
      else if \<not> has_cols cities [''long'', ''lat'', ''city''] then
        Inl (ValueError ''Cities CSV must include columns: ['city', 'lat', 'long']'')
      else Inr ())"

text \<open>Lines 74 to 159: everything after the checks.\<close>

definition render :: "argsort \<Rightarrow> dataframe \<Rightarrow> dataframe \<Rightarrow> dataframe \<Rightarrow> outcome" where
  "render argsort troops temp cities =
     (case bind_err (num_series troops ''survivors'') (\<lambda>sv.
           bind_err (num_series troops ''lat'') (\<lambda>la.
           Inr (col_max sv, col_min la, col_max la))) of
        Inl e \<Rightarrow> ([], Some e)
      | Inr (max_surv, min_lat, max_lat) \<Rightarrow>
          (let y_base = fl_sub min_lat (Fin 2.3) in
           then_do (draw_route argsort max_surv troops [LegendLine Solid, LegendLine Dashed]) (\<lambda>drawn.
           then_do (draw_cities cities drawn) (\<lambda>drawn.
           then_do (draw_temperature y_base temp drawn) (\<lambda>drawn.
           finish troops y_base max_lat drawn)))))"

text \<open>
  \<^verbatim>\<open>main\<close>, applied to the three frames that \<^verbatim>\<open>pd.read_csv\<close> returned for the three
  paths, with the two library algorithms it relies on: numpy's sort and pandas' parser.
\<close>

definition main ::
  "argsort \<Rightarrow> (string \<Rightarrow> fl option) \<Rightarrow> dataframe \<Rightarrow> dataframe \<Rightarrow> dataframe \<Rightarrow> outcome" where
  "main argsort parse troops_csv temp_csv cities_csv =
     (let troops = to_numeric parse (load_csv troops_csv)
                     [''X'', ''long'', ''lat'', ''survivors'', ''group''];
          temp = to_numeric parse (load_csv temp_csv) [''X'', ''long'', ''temp'', ''days''];
          cities = to_numeric parse (load_csv cities_csv) [''X'', ''long'', ''lat'']
      in case bind_err (sort_troops argsort troops) (\<lambda>troops.
              bind_err (sort_if_X argsort temp) (\<lambda>temp.
              bind_err (sort_if_X argsort cities) (\<lambda>cities.
              bind_err (check_columns troops temp cities) (\<lambda>u.
              Inr (troops, temp, cities))))) of
           Inl e \<Rightarrow> ([], Some e)
         | Inr (troops, temp, cities) \<Rightarrow> render argsort troops temp cities)"

section \<open>Example data\<close>



section \<open>Facts about doubles\<close>

lemma fl_le_refl: "x \<noteq> NaN \<Longrightarrow> fl_le x x"
  by (cases x) auto

lemma fl_le_antisym: "fl_le x y \<Longrightarrow> fl_le y x \<Longrightarrow> x = y"
  by (cases x; cases y) auto

lemma fl_add_NaN_right: "fl_add x NaN = NaN"
  by (cases x) auto

lemma fl_add_zero_right: "fl_add x (Fin 0) = x"
  by (cases x) auto

lemma np_fmin_NaN: "np_fmin x y = NaN \<longleftrightarrow> x = NaN \<and> y = NaN"
  by (cases x; cases y) auto

lemma np_fmin_le: "fl_le r (np_fmin x y) \<Longrightarrow> (x = NaN \<or> fl_le r x) \<and> (y = NaN \<or> fl_le r y)"
  by (cases x; cases y; cases r) (auto split: if_splits)

lemma np_fmax_NaN: "np_fmax x y = NaN \<longleftrightarrow> x = NaN \<and> y = NaN"
  by (cases x; cases y) auto

lemma np_fmax_ge: "fl_le (np_fmax x y) r \<Longrightarrow> (x = NaN \<or> fl_le x r) \<and> (y = NaN \<or> fl_le y r)"
  by (cases x; cases y; cases r) (auto split: if_splits)

text \<open>The minimum of a series is below, the maximum above, each of its values.\<close>

lemma fold_fmin_lower:
  "fold np_fmin xs a \<noteq> NaN \<Longrightarrow>
   (a = NaN \<or> fl_le (fold np_fmin xs a) a)
   \<and> (\<forall>t\<in>set xs. t = NaN \<or> fl_le (fold np_fmin xs a) t)"
proof (induction xs arbitrary: a)
  case Nil
  then show ?case by (simp add: fl_le_refl)
next
  case (Cons x xs)
  let ?r = "fold np_fmin xs (np_fmin x a)"
  from Cons.prems have r: "?r \<noteq> NaN" by simp
  from Cons.IH [OF r] have
    h: "np_fmin x a = NaN \<or> fl_le ?r (np_fmin x a)" and
    t: "\<forall>t\<in>set xs. t = NaN \<or> fl_le ?r t" by blast+
  from h have "(x = NaN \<or> fl_le ?r x) \<and> (a = NaN \<or> fl_le ?r a)"
    using np_fmin_le [of ?r x a] by (auto simp: np_fmin_NaN)
  with t show ?case by simp
qed

lemma fold_fmax_upper:
  "fold np_fmax xs a \<noteq> NaN \<Longrightarrow>
   (a = NaN \<or> fl_le a (fold np_fmax xs a))
   \<and> (\<forall>t\<in>set xs. t = NaN \<or> fl_le t (fold np_fmax xs a))"
proof (induction xs arbitrary: a)
  case Nil
  then show ?case by (simp add: fl_le_refl)
next
  case (Cons x xs)
  let ?r = "fold np_fmax xs (np_fmax x a)"
  from Cons.prems have r: "?r \<noteq> NaN" by simp
  from Cons.IH [OF r] have
    h: "np_fmax x a = NaN \<or> fl_le (np_fmax x a) ?r" and
    t: "\<forall>t\<in>set xs. t = NaN \<or> fl_le t ?r" by blast+
  from h have "(x = NaN \<or> fl_le x ?r) \<and> (a = NaN \<or> fl_le a ?r)"
    using np_fmax_ge [of x a ?r] by (auto simp: np_fmax_NaN)
  with t show ?case by simp
qed

lemma col_min_max_equal:
  assumes "col_min ts = Fin m" and "col_max ts = Fin m" and "t \<in> set ts"
  shows "t = Fin m \<or> t = NaN"
proof (cases "t = NaN")
  case False
  from assms(1) have "fl_le (Fin m) t"
    using fold_fmin_lower [of ts NaN] assms(3) False by (auto simp: col_min_def)
  moreover from assms(2) have "fl_le t (Fin m)"
    using fold_fmax_upper [of ts NaN] assms(3) False by (auto simp: col_max_def)
  ultimately show ?thesis by (auto dest: fl_le_antisym)
qed simp

section \<open>Properties of the linewidth\<close>

lemma linewidth_Fin:
  "m \<noteq> 0 \<Longrightarrow> 0 \<le> s / m \<Longrightarrow>
   linewidth (Fin m) (Fin s) = Inr (Fin (0.5 + 11.5 * sqrt (s / m)))"
  by (simp add: linewidth_def py_div_def)

lemma sqrt_0875_bounds: "0.935 < sqrt (0.875::real) \<and> sqrt (0.875::real) < 0.9356"
proof
  have "(0.935::real)\<^sup>2 < 0.875" by (simp add: power2_eq_square)
  then show "0.935 < sqrt (0.875::real)" by (rule real_less_rsqrt)
  have "(0.875::real) < 0.9356\<^sup>2" by (simp add: power2_eq_square)
  then show "sqrt (0.875::real) < 0.9356" by (intro real_less_lsqrt) simp_all
qed

text \<open>
  C1. For finite survivor counts \<open>s1\<close>, \<open>s2\<close> of a consecutive pair and a maximum
  \<open>max_surv > 0\<close>, the linewidth is \<open>0.5 + 11.5 * sqrt (((s1 + s2) / 2) / max_surv)\<close>
  (where the square root is defined, that is for \<open>s1 + s2 \<ge> 0\<close>; for a negative sum
  \<^verbatim>\<open>np.sqrt\<close> gives NaN). For the pair 400000, 300000 with maximum 400000 the linewidth
  is within 0.01 of 11.25.
\<close>

theorem C1_linewidth_formula:
  "(0 < m \<longrightarrow> 0 \<le> s1 + s2 \<longrightarrow>
      segment_linewidth (Fin m) (Fin s1) (Fin s2)
        = Inr (Fin (0.5 + 11.5 * sqrt (((s1 + s2) / 2) / m))))
   \<and> (0 < m \<longrightarrow> s1 + s2 < 0 \<longrightarrow>
      segment_linewidth (Fin m) (Fin s1) (Fin s2) = Inr NaN)
   \<and> (\<exists>x. segment_linewidth (Fin 400000) (Fin 400000) (Fin 300000) = Inr (Fin x)
          \<and> \<bar>x - 11.25\<bar> < 0.01)"
proof (intro conjI impI)
  assume m: "0 < m" and s: "0 \<le> s1 + s2"
  then have "0 \<le> ((s1 + s2) / 2) / m" by simp
  with m show "segment_linewidth (Fin m) (Fin s1) (Fin s2)
        = Inr (Fin (0.5 + 11.5 * sqrt (((s1 + s2) / 2) / m)))"
    by (simp add: segment_linewidth_def surv_avg_def linewidth_Fin)
next
  assume m: "0 < m" and s: "s1 + s2 < 0"
  then have "((s1 + s2) / 2) / m < 0" by (simp add: divide_neg_pos)
  with m show "segment_linewidth (Fin m) (Fin s1) (Fin s2) = Inr NaN"
    by (simp add: segment_linewidth_def surv_avg_def linewidth_def py_div_def)
next
  have e: "segment_linewidth (Fin 400000) (Fin 400000) (Fin 300000)
             = Inr (Fin (0.5 + 11.5 * sqrt 0.875))"
    by (simp add: segment_linewidth_def surv_avg_def linewidth_def py_div_def)
  have "\<bar>(0.5 + 11.5 * sqrt (0.875::real)) - 11.25\<bar> < 0.01"
    using sqrt_0875_bounds by (simp add: abs_less_iff)
  with e show "\<exists>x. segment_linewidth (Fin 400000) (Fin 400000) (Fin 300000) = Inr (Fin x)
          \<and> \<bar>x - 11.25\<bar> < 0.01"
    by blast
qed

theorem C1_linewidth_formula_witness:
  "segment_linewidth (Fin 4) (Fin 4) (Fin 4) = Inr (Fin 12)
   \<and> segment_linewidth (Fin 4) (Fin (- 4)) (Fin 2) = Inr NaN"
  using C1_linewidth_formula [of 4 4 4] C1_linewidth_formula [of 4 "- 4" 2]
  by simp

text \<open>
  C2. For a maximum \<open>max_surv > 0\<close> and survivor values \<open>0 \<le> s \<le> s' \<le> max_surv\<close>, both
  linewidths are finite, lie in \<open>[0.5, 12]\<close>, and the one of \<open>s\<close> is at most the one of
  \<open>s'\<close>: the linewidth is bounded and monotonic non-decreasing in the survivor count.
\<close>

theorem C2_linewidth_range_monotone:
  assumes "0 < m" and "0 \<le> s" and "s \<le> s'" and "s' \<le> m"
  shows "\<exists>x x'. linewidth (Fin m) (Fin s) = Inr (Fin x)
           \<and> linewidth (Fin m) (Fin s') = Inr (Fin x')
           \<and> 0.5 \<le> x \<and> x \<le> x' \<and> x' \<le> 12"
proof -
  from assms have q: "0 \<le> s / m" "s / m \<le> s' / m" "s' / m \<le> 1" "0 \<le> s' / m"
    by (simp_all add: divide_right_mono)
  from q have r: "0 \<le> sqrt (s / m)" "sqrt (s / m) \<le> sqrt (s' / m)" "sqrt (s' / m) \<le> 1"
    by simp_all
  from assms q have "linewidth (Fin m) (Fin s) = Inr (Fin (0.5 + 11.5 * sqrt (s / m)))"
    "linewidth (Fin m) (Fin s') = Inr (Fin (0.5 + 11.5 * sqrt (s' / m)))"
    by (simp_all add: linewidth_Fin)
  moreover from r have "0.5 \<le> 0.5 + 11.5 * sqrt (s / m)"
    "0.5 + 11.5 * sqrt (s / m) \<le> 0.5 + 11.5 * sqrt (s' / m)"
    "0.5 + 11.5 * sqrt (s' / m) \<le> (12::real)"
    by linarith+
  ultimately show ?thesis by blast
qed

theorem C2_linewidth_range_monotone_witness:
  "\<exists>x x'. linewidth (Fin 4) (Fin 0) = Inr (Fin x) \<and> linewidth (Fin 4) (Fin 4) = Inr (Fin x')
     \<and> 0.5 \<le> x \<and> x \<le> x' \<and> x' \<le> 12"
  using C2_linewidth_range_monotone [of 4 0 4] by simp

text \<open>
  C9, as the claim states it, fails: with every survivor count 0 the maximum is 0, and
  the linewidth of a pair is not NaN. The quotient \<^verbatim>\<open>surv / max_surv\<close> is a division of
  Python floats, which raises.
\<close>

theorem C9_zero_max_not_nan:
  "col_max [Fin 0, Fin 0] = Fin 0
   \<and> segment_linewidth (col_max [Fin 0, Fin 0]) (Fin 0) (Fin 0) \<noteq> Inr NaN
   \<and> segment_linewidth (col_max [Fin 0, Fin 0]) (Fin 0) (Fin 0) = Inl ZeroDivisionError"
  by (simp add: col_max_def segment_linewidth_def linewidth_def py_div_def)

text \<open>
  C9, amended. When the maximum survivor count of the dataset is 0, the linewidth
  computation of every pair divides by zero, unguarded, and raises
  \<^verbatim>\<open>ZeroDivisionError\<close>: no linewidth is produced.
\<close>

theorem C9_zero_max_raises:
  "col_max survivors = Fin 0 \<Longrightarrow>
   segment_linewidth (col_max survivors) s1 s2 = Inl ZeroDivisionError"
  by (simp add: segment_linewidth_def linewidth_def py_div_def)

theorem C9_zero_max_raises_witness:
  "segment_linewidth (col_max [Fin 0, NaN, Fin 0]) (Fin 0) NaN = Inl ZeroDivisionError"
  using C9_zero_max_raises [of "[Fin 0, NaN, Fin 0]" "Fin 0" NaN]
  by (simp add: col_max_def)

section \<open>Properties of the temperature placement\<close>

text \<open>
  C3. For \<open>temp_min \<noteq> temp_max\<close> and \<open>y_span \<noteq> 0\<close> the coordinate of a finite
  temperature \<open>t\<close> is \<open>y_base + (t - temp_min) / (temp_max - temp_min) * y_span\<close>, on the
  curve and at the label alike; the inverse map of the specification recovers \<open>t\<close> from
  it; and the map is affine: \<open>a * t + b\<close> for constants \<open>a\<close>, \<open>b\<close>.
\<close>

theorem C3_temperature_affine_invertible:
  assumes "tmin \<noteq> tmax" and "ys \<noteq> 0"
  shows "y_curve (Fin tmin) (Fin tmax) (Fin yb) (Fin ys) (Fin t)
           = Fin (yb + (t - tmin) / (tmax - tmin) * ys)
    \<and> y_label (Fin tmin) (Fin tmax) (Fin yb) (Fin ys) (Fin t)
           = Inr (Fin (yb + (t - tmin) / (tmax - tmin) * ys))
    \<and> y_to_temp_spec tmin tmax yb ys (yb + (t - tmin) / (tmax - tmin) * ys) = t
    \<and> (\<exists>a b. \<forall>u. y_curve (Fin tmin) (Fin tmax) (Fin yb) (Fin ys) (Fin u) = Fin (a * u + b))"
proof (intro conjI)
  from assms show c: "y_curve (Fin tmin) (Fin tmax) (Fin yb) (Fin ys) (Fin t)
           = Fin (yb + (t - tmin) / (tmax - tmin) * ys)" for t
    by (simp add: y_curve_def fl_sub_def)
  from assms show "y_label (Fin tmin) (Fin tmax) (Fin yb) (Fin ys) (Fin t)
           = Inr (Fin (yb + (t - tmin) / (tmax - tmin) * ys))"
    by (simp add: y_label_def fl_sub_def py_div_def)
  from assms show "y_to_temp_spec tmin tmax yb ys (yb + (t - tmin) / (tmax - tmin) * ys) = t"
    by (simp add: y_to_temp_spec_def)
  have "yb + (u - tmin) / d * ys = ys / d * u + (yb - tmin * ys / d)" for u d :: real
    by (simp add: diff_divide_distrib algebra_simps)
  then have "\<forall>u. y_curve (Fin tmin) (Fin tmax) (Fin yb) (Fin ys) (Fin u)
      = Fin ((ys / (tmax - tmin)) * u + (yb - tmin * ys / (tmax - tmin)))"
    by (simp add: c)
  then show "\<exists>a b. \<forall>u. y_curve (Fin tmin) (Fin tmax) (Fin yb) (Fin ys) (Fin u) = Fin (a * u + b)"
    by blast
qed

theorem C3_temperature_affine_invertible_witness:
  "y_curve (Fin (- 30)) (Fin 0) (Fin 50) (Fin 1.4) (Fin (- 15)) = Fin 50.7
   \<and> y_label (Fin (- 30)) (Fin 0) (Fin 50) (Fin 1.4) (Fin (- 15)) = Inr (Fin 50.7)
   \<and> y_to_temp_spec (- 30) 0 50 1.4 50.7 = - 15"
  using C3_temperature_affine_invertible [of "- 30" 0 "1.4" 50 "- 15"] by simp

text \<open>
  C7. For \<open>temp_min \<noteq> temp_max\<close> the maximum maps to \<open>y_base + y_span\<close> and the minimum to
  \<open>y_base\<close>, exactly, on the curve and at the label, whatever \<open>y_base\<close> is.
\<close>

theorem C7_temperature_endpoints:
  assumes "tmin \<noteq> tmax"
  shows "y_curve (Fin tmin) (Fin tmax) yb (Fin ys) (Fin tmax) = fl_add yb (Fin ys)
    \<and> y_curve (Fin tmin) (Fin tmax) yb (Fin ys) (Fin tmin) = yb
    \<and> y_label (Fin tmin) (Fin tmax) yb (Fin ys) (Fin tmax) = Inr (fl_add yb (Fin ys))
    \<and> y_label (Fin tmin) (Fin tmax) yb (Fin ys) (Fin tmin) = Inr yb"
  using assms by (simp add: y_curve_def y_label_def fl_sub_def py_div_def fl_add_zero_right)

theorem C7_temperature_endpoints_witness:
  "y_curve (Fin (- 30)) (Fin 0) (Fin 50) (Fin 1.4) (Fin 0) = Fin 51.4
   \<and> y_curve (Fin (- 30)) (Fin 0) (Fin 50) (Fin 1.4) (Fin (- 30)) = Fin 50
   \<and> y_label (Fin (- 30)) (Fin 0) (Fin 50) (Fin 1.4) (Fin 0) = Inr (Fin 51.4)
   \<and> y_label (Fin (- 30)) (Fin 0) (Fin 50) (Fin 1.4) (Fin (- 30)) = Inr (Fin 50)"
  using C7_temperature_endpoints [of "- 30" 0 "Fin 50" "1.4"] by simp

text \<open>
  C4, as the claim states it, fails: on a series whose values are all \<open>5\<close> the label
  coordinate of a point divides by zero and raises.
\<close>

theorem C4_equal_temperatures_divide_by_zero:
  "col_min [Fin 5, Fin 5] = Fin 5 \<and> col_max [Fin 5, Fin 5] = Fin 5
   \<and> y_label (col_min [Fin 5, Fin 5]) (col_max [Fin 5, Fin 5]) (Fin 50) (Fin 1.4) (Fin 5)
       = Inl ZeroDivisionError"
  by (simp add: col_min_def col_max_def y_label_def fl_sub_def py_div_def)

text \<open>
  C4, amended. When the minimum and the maximum of the temperature series are the same
  finite value, the mapping divides by zero at every point of the series: the label
  coordinate (Python division) raises \<^verbatim>\<open>ZeroDivisionError\<close>, and the curve coordinate
  (numpy division) is NaN.
\<close>

theorem C4_equal_temperatures_amended:
  assumes "col_min ts = Fin m" and "col_max ts = Fin m" and "t \<in> set ts"
  shows "y_label (col_min ts) (col_max ts) yb ys t = Inl ZeroDivisionError
     \<and> y_curve (col_min ts) (col_max ts) yb ys t = NaN"
proof -
  from col_min_max_equal [OF assms] have "fl_sub t (Fin m) = Fin 0 \<or> fl_sub t (Fin m) = NaN"
    by (auto simp: fl_sub_def)
  then show ?thesis
    by (auto simp: assms(1,2) y_label_def y_curve_def fl_sub_def py_div_def fl_add_NaN_right)
qed

theorem C4_equal_temperatures_amended_witness:
  "y_label (col_min [Fin 5, NaN, Fin 5]) (col_max [Fin 5, NaN, Fin 5]) (Fin 50) (Fin 1.4) NaN
      = Inl ZeroDivisionError
   \<and> y_curve (col_min [Fin 5, NaN, Fin 5]) (col_max [Fin 5, NaN, Fin 5]) (Fin 50) (Fin 1.4) NaN
      = NaN"
  using C4_equal_temperatures_amended [of "[Fin 5, NaN, Fin 5]" 5 NaN "Fin 50" "Fin 1.4"]
  by (simp add: col_min_def col_max_def)

section \<open>Properties of the normalizer\<close>

lemma col_len_pd_to_numeric: "col_len (pd_to_numeric parse col) = col_len col"
  by (cases col) auto

lemma col_at_pd_to_numeric:
  "i < col_len col \<Longrightarrow>
   col_at (pd_to_numeric parse col) i = Num (to_numeric_cell parse (col_at col i))"
  by (cases col) auto

lemma pd_to_numeric_Numeric:
  "\<exists>ys. pd_to_numeric parse col = Numeric ys \<and> length ys = col_len col
     \<and> (\<forall>i<col_len col. ys ! i = to_numeric_cell parse (col_at col i))"
  by (cases col) auto

lemma pd_to_numeric_idem:
  "pd_to_numeric parse (pd_to_numeric parse col) = pd_to_numeric parse col"
  by (cases col) auto

lemma to_numeric_nrows: "nrows (to_numeric parse df cs) = nrows df"
  by (induction cs arbitrary: df) (auto split: option.splits)

text \<open>What the loop of \<open>to_numeric\<close> leaves in each column.\<close>

lemma to_numeric_cols:
  "cols (to_numeric parse df cs) c =
     (if c \<in> set cs then map_option (pd_to_numeric parse) (cols df c) else cols df c)"
proof (induction cs arbitrary: df)
  case Nil
  then show ?case by simp
next
  case (Cons a cs)
  show ?case
  proof (cases "cols df a")
    case None
    then show ?thesis using Cons.IH [of df] by auto
  next
    case (Some col)
    then show ?thesis
      using Cons.IH [of "df\<lparr>cols := (cols df)(a \<mapsto> pd_to_numeric parse col)\<rparr>"]
      by (auto simp: pd_to_numeric_idem)
  qed
qed

text \<open>
  C8. \<open>to_numeric\<close> has no error result: it is a total function to frames, as the source
  has no \<^verbatim>\<open>raise\<close> and \<^verbatim>\<open>errors="coerce"\<close> turns a failed conversion into NaN. For each
  listed label that is a column of the table, the column becomes numeric, of the same
  length, each entry being the conversion of the old entry; in particular a string that
  the parser rejects becomes NaN. A label that is not a column of the table is skipped:
  no column is created for it.
\<close>

theorem C8_to_numeric_coerces:
  "(\<forall>c\<in>set cs. \<forall>col. cols df c = Some col \<longrightarrow>
      (\<exists>ys. cols (to_numeric parse df cs) c = Some (Numeric ys)
         \<and> length ys = col_len col
         \<and> (\<forall>i<col_len col. ys ! i = to_numeric_cell parse (col_at col i))
         \<and> (\<forall>i<col_len col. \<forall>s. col_at col i = Obj (Str s) \<longrightarrow> parse s = None \<longrightarrow> ys ! i = NaN)))
   \<and> (\<forall>c. cols df c = None \<longrightarrow> cols (to_numeric parse df cs) c = None)"
proof (intro conjI ballI allI impI)
  fix c col
  assume c: "c \<in> set cs" and col: "cols df c = Some col"
  obtain ys where ys: "pd_to_numeric parse col = Numeric ys" "length ys = col_len col"
    "\<forall>i<col_len col. ys ! i = to_numeric_cell parse (col_at col i)"
    using pd_to_numeric_Numeric by blast
  from c col ys(1) have "cols (to_numeric parse df cs) c = Some (Numeric ys)"
    by (simp add: to_numeric_cols)
  moreover from ys(3)
  have "\<forall>i<col_len col. \<forall>s. col_at col i = Obj (Str s) \<longrightarrow> parse s = None \<longrightarrow> ys ! i = NaN"
    by simp
  ultimately show "\<exists>ys. cols (to_numeric parse df cs) c = Some (Numeric ys)
         \<and> length ys = col_len col
         \<and> (\<forall>i<col_len col. ys ! i = to_numeric_cell parse (col_at col i))
         \<and> (\<forall>i<col_len col. \<forall>s. col_at col i = Obj (Str s) \<longrightarrow> parse s = None \<longrightarrow> ys ! i = NaN)"
    using ys(2,3) by blast
next
  fix c
  assume "cols df c = None"
  then show "cols (to_numeric parse df cs) c = None"
    by (simp add: to_numeric_cols)
qed

theorem C8_to_numeric_coerces_witness:
  "cols (to_numeric (\<lambda>s. if s = ''55.0'' then Some (Fin 55) else None)
           \<lparr>nrows = 2, cols = [''lat'' \<mapsto> Object [Str ''55.0'', Str ''n/a'']]\<rparr>
           [''lat'', ''long'']) ''lat''
     = Some (Numeric [Fin 55, NaN])
   \<and> cols (to_numeric (\<lambda>s. if s = ''55.0'' then Some (Fin 55) else None)
           \<lparr>nrows = 2, cols = [''lat'' \<mapsto> Object [Str ''55.0'', Str ''n/a'']]\<rparr>
           [''lat'', ''long'']) ''long''
     = None"
  using C8_to_numeric_coerces [of "[''lat'', ''long'']"
      "\<lparr>nrows = 2, cols = [''lat'' \<mapsto> Object [Str ''55.0'', Str ''n/a'']]\<rparr>"
      "\<lambda>s. if s = ''55.0'' then Some (Fin 55) else None"]
  by simp

text \<open>
  C10. The table that \<open>to_numeric\<close> returns has the rows of its input, in the same
  order, and differs from it only in listed columns: the number of rows and the set of
  column labels are unchanged, a column that is not listed is identical, and in every
  column each position holds what it held or the conversion of what it held.
\<close>

theorem C10_to_numeric_frame:
  "nrows (to_numeric parse df cs) = nrows df
   \<and> (\<forall>c. c \<notin> set cs \<longrightarrow> cols (to_numeric parse df cs) c = cols df c)
   \<and> (\<forall>c. (cols (to_numeric parse df cs) c = None) = (cols df c = None))
   \<and> (\<forall>c col. cols df c = Some col \<longrightarrow>
        (\<exists>col'. cols (to_numeric parse df cs) c = Some col'
           \<and> col_len col' = col_len col
           \<and> (\<forall>i<col_len col. col_at col' i = col_at col i
                 \<or> col_at col' i = Num (to_numeric_cell parse (col_at col i)))))"
proof (intro conjI allI impI)
  show "nrows (to_numeric parse df cs) = nrows df"
    by (rule to_numeric_nrows)
next
  fix c
  assume "c \<notin> set cs"
  then show "cols (to_numeric parse df cs) c = cols df c"
    by (simp add: to_numeric_cols)
next
  fix c
  show "(cols (to_numeric parse df cs) c = None) = (cols df c = None)"
    by (simp add: to_numeric_cols)
next
  fix c col
  assume col: "cols df c = Some col"
  show "\<exists>col'. cols (to_numeric parse df cs) c = Some col'
           \<and> col_len col' = col_len col
           \<and> (\<forall>i<col_len col. col_at col' i = col_at col i
                 \<or> col_at col' i = Num (to_numeric_cell parse (col_at col i)))"
  proof (cases "c \<in> set cs")
    case True
    with col have "cols (to_numeric parse df cs) c = Some (pd_to_numeric parse col)"
      by (simp add: to_numeric_cols)
    then show ?thesis
      by (simp add: col_len_pd_to_numeric col_at_pd_to_numeric)
  next
    case False
    with col have "cols (to_numeric parse df cs) c = Some col"
      by (simp add: to_numeric_cols)
    then show ?thesis by simp
  qed
qed

theorem C10_to_numeric_frame_witness:
  "nrows (to_numeric (\<lambda>s. if s = ''55.0'' then Some (Fin 55) else None)
           \<lparr>nrows = 2, cols = [''lat'' \<mapsto> Object [Str ''55.0'', Str ''n/a''],
                               ''city'' \<mapsto> Object [Str ''Moscou'', NA]]\<rparr>
           [''lat'']) = 2
   \<and> cols (to_numeric (\<lambda>s. if s = ''55.0'' then Some (Fin 55) else None)
           \<lparr>nrows = 2, cols = [''lat'' \<mapsto> Object [Str ''55.0'', Str ''n/a''],
                               ''city'' \<mapsto> Object [Str ''Moscou'', NA]]\<rparr>
           [''lat'']) ''city''
       = Some (Object [Str ''Moscou'', NA])"
  using C10_to_numeric_frame [of "\<lambda>s. if s = ''55.0'' then Some (Fin 55) else None"
      "\<lparr>nrows = 2, cols = [''lat'' \<mapsto> Object [Str ''55.0'', Str ''n/a''],
                          ''city'' \<mapsto> Object [Str ''Moscou'', NA]]\<rparr>"
      "[''lat'']"]
  by simp

section \<open>Properties of the checks\<close>

lemma load_csv_cols: "c \<noteq> ''Unnamed: 0'' \<Longrightarrow> cols (load_csv df) c = cols df c"
  by (simp add: load_csv_def)

lemma take_rows_None: "(cols (take_rows idx df) c = None) = (cols df c = None)"
  by (simp add: take_rows_def)

lemma key_cols_ok: "has_cols df ks \<Longrightarrow> \<exists>kcs. key_cols df ks = Inr kcs"
  by (induction ks) (auto simp: has_cols_def bind_err_def)

text \<open>A guarded sort does not fail, and keeps the column labels.\<close>

lemma sort_values_ok:
  "has_cols df ks \<Longrightarrow>
   \<exists>df'. sort_values argsort df ks = Inr df'
      \<and> (\<forall>c. (cols df' c = None) = (cols df c = None))"
  using key_cols_ok [of df ks] by (auto simp: sort_values_def bind_err_def take_rows_None)

lemma sort_if_X_ok:
  "\<exists>df'. sort_if_X argsort df = Inr df' \<and> (\<forall>c. (cols df' c = None) = (cols df c = None))"
  using sort_values_ok [of df "[''X'']" argsort] by (auto simp: sort_if_X_def)

lemma sort_troops_ok:
  "\<exists>df'. sort_troops argsort df = Inr df' \<and> (\<forall>c. (cols df' c = None) = (cols df c = None))"
  using sort_values_ok [of df "[''group'', ''direction'', ''X'']" argsort]
    sort_values_ok [of df "[''X'']" argsort]
  by (auto simp: sort_troops_def)

text \<open>
  C5. When the troops table has no \<^verbatim>\<open>survivors\<close> column, whatever the other two tables
  are, the run fails with the \<^verbatim>\<open>ValueError\<close> that names the required troops columns, and
  nothing has been drawn.
\<close>

theorem C5_missing_survivors_fails_before_drawing:
  assumes "cols troops_csv ''survivors'' = None"
  shows "main argsort parse troops_csv temp_csv cities_csv
           = ([], Some (ValueError
                ''Troops CSV must include columns: ['lat', 'long', 'survivors']''))"
proof -
  let ?troops = "to_numeric parse (load_csv troops_csv)
                   [''X'', ''long'', ''lat'', ''survivors'', ''group'']"
  let ?temp = "to_numeric parse (load_csv temp_csv) [''X'', ''long'', ''temp'', ''days'']"
  let ?cities = "to_numeric parse (load_csv cities_csv) [''X'', ''long'', ''lat'']"
  from assms have "cols ?troops ''survivors'' = None"
    by (simp add: to_numeric_cols load_csv_cols del: to_numeric.simps)
  moreover obtain t where t: "sort_troops argsort ?troops = Inr t"
    "\<forall>c. (cols t c = None) = (cols ?troops c = None)"
    using sort_troops_ok by blast
  ultimately have "\<not> has_cols t [''long'', ''lat'', ''survivors'']"
    by (simp add: has_cols_def)
  moreover obtain te where te: "sort_if_X argsort ?temp = Inr te"
    using sort_if_X_ok by blast
  moreover obtain ci where ci: "sort_if_X argsort ?cities = Inr ci"
    using sort_if_X_ok by blast
  ultimately show ?thesis
    using t(1) by (simp add: main_def bind_err_def check_columns_def del: to_numeric.simps)
qed

theorem C5_missing_survivors_fails_before_drawing_witness:
  "main sort_by (\<lambda>s. None)
      \<lparr>nrows = 1, cols = [''long'' \<mapsto> Numeric [Fin 30], ''lat'' \<mapsto> Numeric [Fin 55]]\<rparr>
      \<lparr>nrows = 0, cols = Map.empty\<rparr> \<lparr>nrows = 0, cols = Map.empty\<rparr>
     = ([], Some (ValueError ''Troops CSV must include columns: ['lat', 'long', 'survivors']''))"
  using C5_missing_survivors_fails_before_drawing [of
      "\<lparr>nrows = 1, cols = [''long'' \<mapsto> Numeric [Fin 30], ''lat'' \<mapsto> Numeric [Fin 55]]\<rparr>"
      sort_by "\<lambda>s. None" "\<lparr>nrows = 0, cols = Map.empty\<rparr>" "\<lparr>nrows = 0, cols = Map.empty\<rparr>"]
  by simp

section \<open>Facts about sorting and sub-frames\<close>
















section \<open>Facts about grouping and line styles\<close>









section \<open>Properties of the troop route\<close>














end
